theory Spec2Isabelle
  imports Complex_Main
begin

section \<open>The bar chart components of ng-charts\<close>

text \<open>
  The repository holds three variants of one Angular bar chart component:
  \<^item> \<^verbatim>\<open>src/app/barchart/barchart.component.ts\<close> (the application's component; its
    definitions keep the source's names),
  \<^item> \<^verbatim>\<open>src/lib/barChart/barChart.component.ts\<close> (the library's component, suffix
    \<open>_lib\<close>), which delegates field extraction and scale construction to a
    \<open>DataService\<close> whose code is not among the sources,
  \<^item> an earlier variant of the application's component (suffix \<open>_p0\<close>).

  Numbers are finite and exact rationals: the rounding of IEEE doubles is outside the
  model. A value of type \<open>jsnum\<close> is a number or \<open>None\<close>, which stands for a result that
  is not a number (\<open>NaN\<close> or \<open>undefined\<close>).

  The component declares its X series \<open>string[]\<close> and its Y series \<open>number[]\<close>. The
  conversions JavaScript applies to a value of the other kind (a string read as a number,
  a number written as a string) are not modelled; the theorems about the scales assume
  series of the declared kinds (\<open>string_series\<close>, \<open>numeric_series\<close> below).
\<close>

subsection \<open>Values and records of the dataset\<close>

datatype jsval = Undefined | Num rat | Str string

type_synonym jsnum = "rat option"

text \<open>A record of the dataset is an object: a finite map from field names to values.\<close>

type_synonym datum = "string \<rightharpoonup> jsval"

text \<open>\<open>d[k]\<close>: a field the object does not have reads as \<open>undefined\<close>.\<close>

definition getProp :: "datum \<Rightarrow> string \<Rightarrow> jsval" where
  "getProp d k = (case d k of None \<Rightarrow> Undefined | Some v \<Rightarrow> v)"

text \<open>
  The coercion \<open>+x\<close> that d3's continuous scales apply to their inputs: a number is
  itself and \<open>undefined\<close> is \<open>NaN\<close>. A string, which the declared type of the Y series
  excludes, is read as \<open>NaN\<close> here, which is what JavaScript does for a string that does
  not spell a number only.
\<close>

fun to_number :: "jsval \<Rightarrow> jsnum" where
  "to_number (Num r) = Some r"
| "to_number Undefined = None"
| "to_number (Str s) = None"

text \<open>JavaScript's \<open>a - b\<close> where \<open>b\<close> may be \<open>NaN\<close>.\<close>

definition minus_js :: "rat \<Rightarrow> jsnum \<Rightarrow> jsnum" where
  "minus_js a b = map_option (\<lambda>v. a - v) b"

subsection \<open>The d3 operations the components call\<close>

text \<open>
  d3 is a library outside the repository. The definitions of this subsection follow
  its documented behaviour for the calls the components make: \<open>d3.max\<close>,
  \<open>d3.scaleBand().domain(..).rangeRound(..)\<close> with \<open>bandwidth()\<close> and application, and
  \<open>d3.scaleLinear().domain(..).rangeRound(..)\<close> with application.
\<close>

text \<open>
  \<open>d3.max(values)\<close>: one pass that skips \<open>undefined\<close> and keeps the greatest number seen;
  the result is \<open>undefined\<close> when no number was seen. The Y series it is called on is
  declared \<open>number[]\<close>; a string, which d3 would compare as a string, is passed over
  here.
\<close>

definition d3_max :: "jsval list \<Rightarrow> jsval" where
  "d3_max vs =
     fold (\<lambda>v mx. case v of
                      Num r \<Rightarrow> (case mx of Num m \<Rightarrow> if m < r then Num r else mx
                                          | _ \<Rightarrow> Num r)
                    | _ \<Rightarrow> mx) vs Undefined"

record scaleBand =
  band_domain :: "jsval list"
  band_range :: "rat \<times> rat"
  band_round :: bool

text \<open>\<open>d3.scaleBand()\<close>: empty domain, range \<open>[0, 1]\<close>, no rounding, no padding, centred.\<close>

definition d3_scaleBand :: scaleBand where
  "d3_scaleBand = \<lparr>band_domain = [], band_range = (0, 1), band_round = False\<rparr>"

text \<open>
  d3 keys the values of a band scale by their string form: the key of a string is the
  string and the key of \<open>undefined\<close> is the string \<open>undefined\<close>. The string form of a
  number, which the declared type of the X series excludes, is not modelled: a number is
  its own key here.
\<close>

fun band_key :: "jsval \<Rightarrow> jsval" where
  "band_key Undefined = Str ''undefined''"
| "band_key (Str s) = Str s"
| "band_key (Num r) = Num r"

text \<open>
  \<open>band.domain(values)\<close>: the values are pushed in order, a value whose key is already
  in the domain is skipped.
\<close>

definition domain_band :: "jsval list \<Rightarrow> scaleBand \<Rightarrow> scaleBand" where
  "domain_band vs sc =
     sc\<lparr>band_domain :=
          fold (\<lambda>d dom. if band_key d \<in> band_key ` set dom then dom else dom @ [d]) vs []\<rparr>"

definition rangeRound_band :: "rat \<times> rat \<Rightarrow> scaleBand \<Rightarrow> scaleBand" where
  "rangeRound_band r sc = sc\<lparr>band_range := r, band_round := True\<rparr>"

text \<open>
  The band scale's \<open>rescale\<close> with \<open>paddingInner = paddingOuter = 0\<close> and \<open>align = 0.5\<close>:
  \<^verbatim>\<open>
  n = domain.length; reverse = range[1] < range[0];
  start = range[reverse - 0]; stop = range[1 - reverse];
  step = (stop - start) / Math.max(1, n);
  if (round) step = Math.floor(step);
  start += (stop - start - step * n) * align;
  bandwidth = step;
  if (round) start = Math.round(start), bandwidth = Math.round(bandwidth);
  values = sequence(n).map(i => start + step * i);
  return ordinalRange(reverse ? values.reverse() : values);
  \<close>
\<close>

definition band_reverse :: "scaleBand \<Rightarrow> bool" where
  "band_reverse sc = (snd (band_range sc) < fst (band_range sc))"

definition band_lo :: "scaleBand \<Rightarrow> rat" where
  "band_lo sc = (if band_reverse sc then snd (band_range sc) else fst (band_range sc))"

definition band_hi :: "scaleBand \<Rightarrow> rat" where
  "band_hi sc = (if band_reverse sc then fst (band_range sc) else snd (band_range sc))"

definition band_step :: "scaleBand \<Rightarrow> rat" where
  "band_step sc =
     (let step = (band_hi sc - band_lo sc) / of_nat (max 1 (length (band_domain sc)))
      in if band_round sc then of_int \<lfloor>step\<rfloor> else step)"

definition band_start :: "scaleBand \<Rightarrow> rat" where
  "band_start sc =
     (let start = band_lo sc
                  + (band_hi sc - band_lo sc
                     - band_step sc * of_nat (length (band_domain sc))) * (1 / 2)
      in if band_round sc then of_int (round start) else start)"

definition bandwidth :: "scaleBand \<Rightarrow> rat" where
  "bandwidth sc =
     (if band_round sc then of_int (round (band_step sc)) else band_step sc)"

fun index_of :: "'a \<Rightarrow> 'a list \<Rightarrow> nat option" where
  "index_of v [] = None"
| "index_of v (x # xs) =
     (if v = x then Some 0 else map_option Suc (index_of v xs))"

text \<open>
  Applying the band scale: the left edge of the band of the value's key, \<open>undefined\<close>
  for a value whose key is not in the domain.
\<close>

definition scaleBand_apply :: "scaleBand \<Rightarrow> jsval \<Rightarrow> jsnum" where
  "scaleBand_apply sc v =
     (case index_of (band_key v) (map band_key (band_domain sc)) of
        None \<Rightarrow> None
      | Some i \<Rightarrow>
          let n = length (band_domain sc);
              j = (if band_reverse sc then n - 1 - i else i)
          in Some (band_start sc + band_step sc * of_nat j))"

record scaleLinear =
  lin_domain :: "jsnum \<times> jsnum"
  lin_range :: "rat \<times> rat"
  lin_round :: bool

text \<open>\<open>d3.scaleLinear()\<close>: domain \<open>[0, 1]\<close>, range \<open>[0, 1]\<close>, no rounding, no clamping.\<close>

definition d3_scaleLinear :: scaleLinear where
  "d3_scaleLinear = \<lparr>lin_domain = (Some 0, Some 1), lin_range = (0, 1), lin_round = False\<rparr>"

text \<open>\<open>linear.domain([a, b])\<close> coerces both ends to numbers.\<close>

definition domain_linear :: "jsval \<times> jsval \<Rightarrow> scaleLinear \<Rightarrow> scaleLinear" where
  "domain_linear d sc = sc\<lparr>lin_domain := (to_number (fst d), to_number (snd d))\<rparr>"

definition rangeRound_linear :: "rat \<times> rat \<Rightarrow> scaleLinear \<Rightarrow> scaleLinear" where
  "rangeRound_linear r sc = sc\<lparr>lin_range := r, lin_round := True\<rparr>"

text \<open>
  The position of \<open>x\<close> in the domain \<open>[a, b]\<close>. For a domain of width zero d3 answers with
  one constant for every \<open>x\<close>; the constant is \<open>0\<close> in d3-scale 1.x, the version of the
  repository's time, which is what is written here.
\<close>

definition deinterpolateLinear :: "rat \<Rightarrow> rat \<Rightarrow> rat \<Rightarrow> rat" where
  "deinterpolateLinear a b x = (if b - a \<noteq> 0 then (x - a) / (b - a) else 0)"

text \<open>\<open>interpolateRound(a, b)(t) = Math.round(a + (b - a) * t)\<close>, or no rounding.\<close>

definition reinterpolate :: "bool \<Rightarrow> rat \<Rightarrow> rat \<Rightarrow> rat \<Rightarrow> rat" where
  "reinterpolate rnd a b t =
     (if rnd then of_int (round (a + (b - a) * t)) else a + (b - a) * t)"

text \<open>
  Applying the linear scale (d3's \<open>bimap\<close>): a descending domain is turned round together
  with its range; a domain end or an input that is not a number gives \<open>NaN\<close>.
\<close>

definition scaleLinear_apply :: "scaleLinear \<Rightarrow> jsval \<Rightarrow> jsnum" where
  "scaleLinear_apply sc v =
     (case (fst (lin_domain sc), snd (lin_domain sc), to_number v) of
        (Some d0, Some d1, Some x) \<Rightarrow>
          let r0 = fst (lin_range sc); r1 = snd (lin_range sc)
          in if d1 < d0
             then Some (reinterpolate (lin_round sc) r1 r0 (deinterpolateLinear d1 d0 x))
             else Some (reinterpolate (lin_round sc) r0 r1 (deinterpolateLinear d0 d1 x))
      | _ \<Rightarrow> None)"

subsection \<open>The drawing surface\<close>

text \<open>
  The chart is a d3 selection of one group element; the model keeps the list of the
  children appended to it, in document order. A bar keeps the record bound to it, the
  attributes set on it at once, and the transition scheduled on it with the values the
  transition leads to.
\<close>

text \<open>
  The values of attributes: a string, a number, the transforms \<open>translate(a, b)\<close> and
  \<open>rotate(a)\<close>, and \<open>Dashed a\<close> for the template string \<open>-${a}\<close>, a dash followed by the
  number as JavaScript writes it.
\<close>

datatype aval = Txt string | Px jsnum | Translate rat rat | Rotate rat | Dashed rat

text \<open>The easing of a transition: d3's default, cubic, or the linear one the code sets.\<close>

datatype ease = EaseCubic | EaseLinear

record transition =
  ease :: ease
  duration :: nat
  tweens :: "(string \<times> aval) list"

record rect =
  datum :: datum
  attrs :: "(string \<times> aval) list"
  trans :: "transition option"

datatype scale = Band scaleBand | Linear scaleLinear

datatype axis = AxisBottom scale | AxisLeft scale

datatype node =
    AxisGroup "(string \<times> aval) list" axis
  | TextLabel "(string \<times> aval) list" string
  | Rect rect

text \<open>\<open>selectAll('.bar')\<close> selects the elements whose class is \<open>bar\<close>.\<close>

fun is_bar :: "node \<Rightarrow> bool" where
  "is_bar (Rect r) = (map_of (attrs r) ''class'' = Some (Txt ''bar''))"
| "is_bar (AxisGroup a x) = False"
| "is_bar (TextLabel a t) = False"

text \<open>
  \<open>selection.data(dataSet)\<close> joins by position: the i-th selected element is bound to
  the i-th record (the update selection); selected elements beyond the data are left as
  they are (the exit selection).
\<close>

fun bind_data :: "datum list \<Rightarrow> node list \<Rightarrow> node list" where
  "bind_data ds [] = []"
| "bind_data [] (n # ns) = n # ns"
| "bind_data (d # ds) (Rect r # ns) =
     (if is_bar (Rect r) then Rect (r\<lparr>datum := d\<rparr>) # bind_data ds ns
      else Rect r # bind_data (d # ds) ns)"
| "bind_data (d # ds) (n # ns) = n # bind_data (d # ds) ns"

text \<open>\<open>.enter()\<close>: the records at positions that have no selected element.\<close>

definition enter :: "datum list \<Rightarrow> node list \<Rightarrow> datum list" where
  "enter ds c = drop (length (filter is_bar c)) ds"

subsection \<open>The component\<close>

datatype error = Error string

text \<open>The four margins; their names carry the suffix \<open>_m\<close>.\<close>

record margins =
  top_m :: rat
  right_m :: rat
  bottom_m :: rat
  left_m :: rat

text \<open>
  The component's fields. \<open>xField\<close> and \<open>yField\<close> are the inputs \<open>x\<close> and \<open>y\<close>. \<open>data\<close> and
  \<open>chart\<close> are the two fields the code tests for absence; the fields that are only
  assigned by the hooks hold any value of their type before.
\<close>

record component =
  width :: rat
  height :: rat
  margins :: margins
  data :: "datum list option"
  xField :: string
  yField :: string
  chartHeight :: rat
  chartWidth :: rat
  chart :: "node list option"
  xScale :: scaleBand
  yScale :: scaleLinear
  xData :: "jsval list"
  yData :: "jsval list"

text \<open>The library's component also keeps the labels of its tooltip.\<close>

record lib_component = component +
  tooltipLabels :: "string \<times> string"

text \<open>
  \<open>makeAxis\<close> (the same in the three variants) appends an axis group and a text label to
  the chart. \<open>makeAxis\<close> and \<open>draw\<close> use \<open>this.chart\<close> without a test, their callers having
  set it: the model hands them the chart's children \<open>c\<close>. The template strings of the
  source are kept as structured values (\<open>Translate\<close>, \<open>Dashed\<close>).
\<close>

definition makeAxis :: "string \<Rightarrow> scale \<Rightarrow> 'a component_scheme \<Rightarrow> node list \<Rightarrow> node list" where
  "makeAxis ax sc s c =
     (if ax = ''x'' then
        c @ [AxisGroup [(''class'', Txt ''x-axis''),
                        (''transform'', Translate 0 (chartHeight s))] (AxisBottom sc),
             TextLabel [(''transform'',
                         Translate (chartWidth s / 2)
                                   (chartHeight s + bottom_m (margins s) - 5))] (xField s)]
      else if ax = ''y'' then
        c @ [AxisGroup [(''class'', Txt ''y-axis'')] (AxisLeft sc),
             TextLabel [(''transform'', Rotate (- 90)),
                        (''y'', Dashed (left_m (margins s))),
                        (''x'', Dashed (chartHeight s / 2)),
                        (''dy'', Txt ''1em''),
                        (''text-anchor'', Txt ''middle'')] (yField s)]
      else c)"

subsubsection \<open>The application's component\<close>

definition getData :: "datum list \<Rightarrow> string \<Rightarrow> jsval list" where
  "getData ds dataElement = map (\<lambda>d. getProp d dataElement) ds"

text \<open>The bar that \<open>draw\<close> appends for an entering record.\<close>

definition new_bar :: "'a component_scheme \<Rightarrow> scaleBand \<Rightarrow> scaleLinear \<Rightarrow> datum \<Rightarrow> node" where
  "new_bar s xs ys d =
     Rect \<lparr>datum = d,
           attrs = [(''class'', Txt ''bar''),
                    (''width'', Px (Some (bandwidth xs))),
                    (''x'', Px (scaleBand_apply xs (getProp d (xField s)))),
                    (''y'', Px (scaleLinear_apply ys (Num 0))),
                    (''height'', Px (minus_js (chartHeight s) (scaleLinear_apply ys (Num 0))))],
           trans = Some \<lparr>ease = EaseLinear, duration = 880,
                         tweens = [(''y'', Px (scaleLinear_apply ys (getProp d (yField s)))),
                                   (''height'', Px (minus_js (chartHeight s)
                                      (scaleLinear_apply ys (getProp d (yField s)))))]\<rparr>\<rparr>"

definition draw :: "datum list \<Rightarrow> component \<Rightarrow> node list \<Rightarrow> component" where
  "draw dataSet s c =
     (let xd = getData dataSet (xField s);
          yd = getData dataSet (yField s);
          xs = rangeRound_band (0, chartWidth s) (domain_band xd d3_scaleBand);
          ys = rangeRound_linear (chartHeight s, 0)
                 (domain_linear (Num 0, d3_max yd) d3_scaleLinear);
          s1 = s\<lparr>xData := xd, yData := yd, xScale := xs, yScale := ys\<rparr>;
          c1 = makeAxis ''x'' (Band xs) s1 c;
          c2 = makeAxis ''y'' (Linear ys) s1 c1
      in s1\<lparr>chart := Some (bind_data dataSet c2 @ map (new_bar s1 xs ys) (enter dataSet c2))\<rparr>)"

text \<open>
  The hooks return the component as the call leaves it and the exception thrown, if any.
  \<open>makeChartCanvas\<close> belongs to the \<open>ChartService\<close>, whose code is not among the sources:
  it is a parameter, giving the children of the chart group it creates.
\<close>

definition ngOnInit ::
  "(rat \<Rightarrow> rat \<Rightarrow> margins \<Rightarrow> node list) \<Rightarrow> component \<Rightarrow> component \<times> error option" where
  "ngOnInit makeChartCanvas s =
     (case data s of
        None \<Rightarrow> (s, Some (Error ''Missing Data!''))
      | Some ds \<Rightarrow>
          let s1 = s\<lparr>chartWidth := width s - left_m (margins s) - right_m (margins s)\<rparr>;
              s2 = s1\<lparr>chartHeight := height s1 - top_m (margins s1) - bottom_m (margins s1)\<rparr>;
              c = makeChartCanvas (width s2) (height s2) (margins s2);
              s3 = s2\<lparr>chart := Some c\<rparr>
          in (draw ds s3 c, None))"

definition ngOnChanges :: "component \<Rightarrow> component \<times> error option" where
  "ngOnChanges s =
     (let s1 = s\<lparr>chartWidth := width s - left_m (margins s) - right_m (margins s)\<rparr>;
          s2 = s1\<lparr>chartHeight := height s1 - top_m (margins s1) - bottom_m (margins s1)\<rparr>
      in case (chart s2, data s2) of
           (Some c, Some ds) \<Rightarrow> (draw ds s2 c, None)
         | _ \<Rightarrow> (s2, None))"

subsubsection \<open>The library's component\<close>

text \<open>
  The services the library's component is given. \<open>getData\<close> and \<open>makeScale\<close> belong to
  the \<open>DataService\<close> and \<open>makeChartCanvas\<close> to the \<open>ChartService\<close>; their code is not among
  the sources, so they are parameters (\<open>makeScale\<close> one per kind of scale it is asked
  for). The tooltip service only attaches handlers to the bars and is left out.
\<close>

record services =
  makeChartCanvas_svc :: "rat \<Rightarrow> rat \<Rightarrow> margins \<Rightarrow> node list"
  getData_svc :: "datum list \<Rightarrow> string \<Rightarrow> jsval list"
  makeScale_categorical :: "jsval list \<Rightarrow> rat \<Rightarrow> scaleBand"
  makeScale_linear :: "jsval list \<Rightarrow> rat \<Rightarrow> bool \<Rightarrow> scaleLinear"

definition draw_lib :: "services \<Rightarrow> datum list \<Rightarrow> lib_component \<Rightarrow> node list \<Rightarrow> lib_component" where
  "draw_lib svc dataSet s c =
     (let xd = getData_svc svc dataSet (xField s);
          yd = getData_svc svc dataSet (yField s);
          xs = makeScale_categorical svc xd (chartWidth s);
          ys = makeScale_linear svc yd (chartHeight s) False;
          s1 = s\<lparr>xData := xd, yData := yd, xScale := xs, yScale := ys\<rparr>;
          c1 = makeAxis ''x'' (Band xs) s1 c;
          c2 = makeAxis ''y'' (Linear ys) s1 c1
      in s1\<lparr>chart := Some (bind_data dataSet c2 @ map (new_bar s1 xs ys) (enter dataSet c2))\<rparr>)"

definition ngOnInit_lib :: "services \<Rightarrow> lib_component \<Rightarrow> lib_component \<times> error option" where
  "ngOnInit_lib svc s =
     (case data s of
        None \<Rightarrow> (s, Some (Error ''Missing Data!''))
      | Some ds \<Rightarrow>
          let s1 = s\<lparr>chartWidth := width s - left_m (margins s) - right_m (margins s)\<rparr>;
              s2 = s1\<lparr>chartHeight := height s1 - top_m (margins s1) - bottom_m (margins s1)\<rparr>;
              s3 = s2\<lparr>tooltipLabels := (xField s2, yField s2)\<rparr>;
              c = makeChartCanvas_svc svc (width s3) (height s3) (margins s3);
              s4 = s3\<lparr>chart := Some c\<rparr>
          in (draw_lib svc ds s4 c, None))"

definition ngOnChanges_lib :: "services \<Rightarrow> lib_component \<Rightarrow> lib_component \<times> error option" where
  "ngOnChanges_lib svc s =
     (let s1 = s\<lparr>chartWidth := width s - left_m (margins s) - right_m (margins s)\<rparr>;
          s2 = s1\<lparr>chartHeight := height s1 - top_m (margins s1) - bottom_m (margins s1)\<rparr>;
          s3 = s2\<lparr>tooltipLabels := (xField s2, yField s2)\<rparr>
      in case (chart s3, data s3) of
           (Some c, Some ds) \<Rightarrow> (draw_lib svc ds s3 c, None)
         | _ \<Rightarrow> (s3, None))"

subsubsection \<open>The earlier variant of the application's component\<close>

text \<open>
  Here \<open>getData\<close> and \<open>draw\<close> read \<open>this.data\<close>, which \<open>ngOnInit\<close> has tested: the model hands
  it to them as \<open>ds\<close>. The bar gets its height and its \<open>y\<close> at once and everything else,
  its class too, through the transition.
\<close>

definition getData_p0 :: "datum list \<Rightarrow> string \<Rightarrow> jsval list" where
  "getData_p0 ds dataElement = map (\<lambda>d. getProp d dataElement) ds"

definition new_bar_p0 :: "component \<Rightarrow> scaleBand \<Rightarrow> scaleLinear \<Rightarrow> datum \<Rightarrow> node" where
  "new_bar_p0 s xs ys d =
     Rect \<lparr>datum = d,
           attrs = [(''height'', Px (Some 0)),
                    (''y'', Px (Some (chartHeight s)))],
           trans = Some \<lparr>ease = EaseLinear, duration = 1200,
                         tweens = [(''class'', Txt ''bar''),
                                   (''width'', Px (Some (bandwidth xs))),
                                   (''x'', Px (scaleBand_apply xs (getProp d (xField s)))),
                                   (''y'', Px (scaleLinear_apply ys (getProp d (yField s)))),
                                   (''height'', Px (minus_js (chartHeight s)
                                      (scaleLinear_apply ys (getProp d (yField s)))))]\<rparr>\<rparr>"

definition draw_p0 :: "datum list \<Rightarrow> component \<Rightarrow> node list \<Rightarrow> component" where
  "draw_p0 ds s c =
     (let xd = getData_p0 ds (xField s);
          yd = getData_p0 ds (yField s);
          xs = rangeRound_band (0, chartWidth s) (domain_band xd d3_scaleBand);
          ys = rangeRound_linear (chartHeight s, 0)
                 (domain_linear (Num 0, d3_max yd) d3_scaleLinear);
          s1 = s\<lparr>xData := xd, yData := yd, xScale := xs, yScale := ys\<rparr>;
          c1 = makeAxis ''x'' (Band xs) s1 c;
          c2 = makeAxis ''y'' (Linear ys) s1 c1
      in s1\<lparr>chart := Some (bind_data ds c2 @ map (new_bar_p0 s1 xs ys) (enter ds c2))\<rparr>)"

definition ngOnInit_p0 ::
  "(rat \<Rightarrow> rat \<Rightarrow> margins \<Rightarrow> node list) \<Rightarrow> component \<Rightarrow> component \<times> error option" where
  "ngOnInit_p0 makeChartCanvas s =
     (case data s of
        None \<Rightarrow> (s, Some (Error ''Missing Data!''))
      | Some ds \<Rightarrow>
          let s1 = s\<lparr>chartWidth := width s - left_m (margins s) - right_m (margins s)\<rparr>;
              s2 = s1\<lparr>chartHeight := height s1 - top_m (margins s1) - bottom_m (margins s1)\<rparr>;
              c = makeChartCanvas (width s2) (height s2) (margins s2);
              s3 = s2\<lparr>chart := Some c\<rparr>
          in (draw_p0 ds s3 c, None))"

definition ngOnChanges_p0 :: "component \<Rightarrow> component \<times> error option" where
  "ngOnChanges_p0 s =
     (let s1 = s\<lparr>chartWidth := width s - left_m (margins s) - right_m (margins s)\<rparr>;
          s2 = s1\<lparr>chartHeight := height s1 - top_m (margins s1) - bottom_m (margins s1)\<rparr>
      in (s2, None))"

subsection \<open>Notions of the specification\<close>


text \<open>
  A series of the kind the component declares for its Y values: numbers, or \<open>undefined\<close>
  where a record lacks the field.
\<close>

definition numeric_series :: "jsval list \<Rightarrow> bool" where
  "numeric_series vs = list_all (\<lambda>v. case v of Str s \<Rightarrow> False | _ \<Rightarrow> True) vs"


text \<open>The rectangles among the chart's children, in document order.\<close>

fun rects_of :: "node list \<Rightarrow> rect list" where
  "rects_of [] = []"
| "rects_of (Rect r # ns) = r # rects_of ns"
| "rects_of (AxisGroup a x # ns) = rects_of ns"
| "rects_of (TextLabel a t # ns) = rects_of ns"

text \<open>
  The transition scheduled on a bar: linear easing, a duration in milliseconds, and the
  values that \<open>y\<close> and \<open>height\<close> are led to.
\<close>

definition transition_to :: "rect \<Rightarrow> nat \<Rightarrow> jsnum \<Rightarrow> jsnum \<Rightarrow> bool" where
  "transition_to r ms y h =
     (case trans r of
        None \<Rightarrow> False
      | Some t \<Rightarrow> ease t = EaseLinear \<and> duration t = ms
                  \<and> map_of (tweens t) ''y'' = Some (Px y)
                  \<and> map_of (tweens t) ''height'' = Some (Px h))"

text \<open>The geometry a bar has before its transition starts.\<close>

definition baseline :: "rect \<Rightarrow> jsnum \<Rightarrow> jsnum \<Rightarrow> bool" where
  "baseline r y h =
     (map_of (attrs r) ''y'' = Some (Px y) \<and> map_of (attrs r) ''height'' = Some (Px h))"

subsection \<open>The end-to-end scenario of the specification\<close>

text \<open>
  Three records, \<open>xField = cat\<close>, \<open>yField = val\<close>, a 400 by 400 chart with margins of 60.
  The other datasets are the Y values \<open>[-5, 10, 3]\<close> of the specification's test, a
  single record of value zero, the re-render of the specification (the value of \<open>A\<close>
  changed from 10 to 30), and a re-render with fewer records.
\<close>

definition demo_data :: "datum list" where
  "demo_data = [[''cat'' \<mapsto> Str ''A'', ''val'' \<mapsto> Num 10],
                [''cat'' \<mapsto> Str ''B'', ''val'' \<mapsto> Num 20],
                [''cat'' \<mapsto> Str ''C'', ''val'' \<mapsto> Num 5]]"

definition neg_data :: "datum list" where
  "neg_data = [[''cat'' \<mapsto> Str ''A'', ''val'' \<mapsto> Num (- 5)],
               [''cat'' \<mapsto> Str ''B'', ''val'' \<mapsto> Num 10],
               [''cat'' \<mapsto> Str ''C'', ''val'' \<mapsto> Num 3]]"

definition zero_data :: "datum list" where
  "zero_data = [[''cat'' \<mapsto> Str ''A'', ''val'' \<mapsto> Num 0]]"

definition rerender_data :: "datum list" where
  "rerender_data = [[''cat'' \<mapsto> Str ''A'', ''val'' \<mapsto> Num 30],
                    [''cat'' \<mapsto> Str ''B'', ''val'' \<mapsto> Num 20],
                    [''cat'' \<mapsto> Str ''C'', ''val'' \<mapsto> Num 5]]"

definition shrunk_data :: "datum list" where
  "shrunk_data = [[''cat'' \<mapsto> Str ''A'', ''val'' \<mapsto> Num 30]]"

definition demo :: component where
  "demo = \<lparr>width = 400, height = 400,
            margins = \<lparr>top_m = 60, right_m = 60, bottom_m = 60, left_m = 60\<rparr>,
            data = Some demo_data, xField = ''cat'', yField = ''val'',
            chartHeight = 0, chartWidth = 0, chart = None,
            xScale = d3_scaleBand, yScale = d3_scaleLinear, xData = [], yData = []\<rparr>"

definition demo_lib :: lib_component where
  "demo_lib = \<lparr>width = 400, height = 400,
                margins = \<lparr>top_m = 60, right_m = 60, bottom_m = 60, left_m = 60\<rparr>,
                data = Some demo_data, xField = ''cat'', yField = ''val'',
                chartHeight = 0, chartWidth = 0, chart = None,
                xScale = d3_scaleBand, yScale = d3_scaleLinear, xData = [], yData = [],
                tooltipLabels = ([], [])\<rparr>"

text \<open>
  Modelled from the spec: \<open>ChartService.makeChartCanvas\<close>, whose code is not among the
  sources. The specification has the canvas as a drawing surface the component appends
  to; the scenario takes the chart group it creates to be empty.
\<close>

definition empty_canvas :: "rat \<Rightarrow> rat \<Rightarrow> margins \<Rightarrow> node list" where
  "empty_canvas w h m = []"

text \<open>
  Modelled from the spec: \<open>DataService.getData\<close> and \<open>DataService.makeScale\<close>, whose code is
  not among the sources. By the specification the field extractor projects the records
  to the values of one field in order, the categorical scale has the distinct X values
  as domain and \<open>[0, chartWidth]\<close> as range, and the linear scale has the domain
  \<open>[0, max(Y)]\<close> and the range \<open>[chartHeight, 0]\<close>: what the application's component
  computes inline, which the scenario takes for the services.
\<close>

definition demo_svc :: services where
  "demo_svc =
     \<lparr>makeChartCanvas_svc = empty_canvas,
      getData_svc = getData,
      makeScale_categorical = (\<lambda>xd w. rangeRound_band (0, w) (domain_band xd d3_scaleBand)),
      makeScale_linear = (\<lambda>yd h b. rangeRound_linear (h, 0)
                                      (domain_linear (Num 0, d3_max yd) d3_scaleLinear))\<rparr>"

text \<open>The application's component after its initial render of the scenario.\<close>

definition demo_app_rendered :: component where
  "demo_app_rendered = fst (ngOnInit empty_canvas demo)"

text \<open>The library's component after its initial render of the scenario.\<close>

definition demo_rendered :: lib_component where
  "demo_rendered = fst (ngOnInit_lib demo_svc demo_lib)"

section \<open>Properties\<close>

subsection \<open>The domain of the band scale\<close>










subsection \<open>The maximum of the Y series\<close>

lemma finite_Nums: "finite {r. Num r \<in> set vs}"
proof -
  have "{r. Num r \<in> set vs} \<subseteq> (\<lambda>v. case v of Num r \<Rightarrow> r | _ \<Rightarrow> 0) ` set vs"
    by force
  then show ?thesis by (rule finite_subset) simp
qed

lemma Max_insert_insert:
  "finite S \<Longrightarrow> Max (insert m (insert r S)) = Max (insert (max m r) S)"
  by (cases "S = {}") (simp_all add: max.assoc)

lemma d3_max_fold_Num:
  "fold (\<lambda>v mx. case v of
                      Num r \<Rightarrow> (case mx of Num m \<Rightarrow> if m < r then Num r else mx
                                          | _ \<Rightarrow> Num r)
                    | _ \<Rightarrow> mx) vs (Num m) = Num (Max (insert m {r. Num r \<in> set vs}))"
proof (induction vs arbitrary: m)
  case Nil
  then show ?case by simp
next
  case (Cons v vs)
  show ?case
  proof (cases v)
    case (Num r)
    have eq: "{q. Num q \<in> set (v # vs)} = insert r {q. Num q \<in> set vs}"
      using Num by auto
    have mx: "Max (insert m (insert r {q. Num q \<in> set vs}))
                = Max (insert (max m r) {q. Num q \<in> set vs})"
      by (rule Max_insert_insert) (rule finite_Nums)
    show ?thesis
    proof (cases "m < r")
      case True
      then have "max m r = r" by simp
      with True Num Cons.IH [of r] eq mx show ?thesis by simp
    next
      case False
      then have "max m r = m" by simp
      with False Num Cons.IH [of m] eq mx show ?thesis by simp
    qed
  next
    case Undefined
    then have "{q. Num q \<in> set (v # vs)} = {q. Num q \<in> set vs}" by auto
    with Undefined Cons.IH [of m] show ?thesis by simp
  next
    case (Str x)
    then have "{q. Num q \<in> set (v # vs)} = {q. Num q \<in> set vs}" by auto
    with Str Cons.IH [of m] show ?thesis by simp
  qed
qed

lemma d3_max_no_number:
  "\<forall>r. Num r \<notin> set vs \<Longrightarrow> d3_max vs = Undefined"
proof -
  have "\<forall>r. Num r \<notin> set vs \<Longrightarrow> fold (\<lambda>v mx. case v of
                      Num r \<Rightarrow> (case mx of Num m \<Rightarrow> if m < r then Num r else mx
                                          | _ \<Rightarrow> Num r)
                    | _ \<Rightarrow> mx) vs Undefined = Undefined"
    by (induction vs) (auto split: jsval.splits)
  then show "\<forall>r. Num r \<notin> set vs \<Longrightarrow> d3_max vs = Undefined"
    by (simp add: d3_max_def)
qed

lemma d3_max_number:
  "Num r \<in> set vs \<Longrightarrow> d3_max vs = Num (Max {q. Num q \<in> set vs})"
proof (induction vs)
  case Nil
  then show ?case by simp
next
  case (Cons v vs)
  show ?case
  proof (cases v)
    case (Num q)
    have "{q. Num q \<in> set (v # vs)} = insert q {q. Num q \<in> set vs}"
      using Num by auto
    then show ?thesis
      using Num d3_max_fold_Num [of vs q] by (simp add: d3_max_def)
  next
    case Undefined
    with Cons.prems have "Num r \<in> set vs" by simp
    moreover have "{q. Num q \<in> set (v # vs)} = {q. Num q \<in> set vs}"
      using Undefined by auto
    ultimately show ?thesis
      using Cons.IH Undefined by (simp add: d3_max_def)
  next
    case (Str x)
    with Cons.prems have "Num r \<in> set vs" by simp
    moreover have "{q. Num q \<in> set (v # vs)} = {q. Num q \<in> set vs}"
      using Str by auto
    ultimately show ?thesis
      using Cons.IH Str by (simp add: d3_max_def)
  qed
qed


subsection \<open>The data join\<close>

lemma filter_is_bar_makeAxis: "filter is_bar (makeAxis ax sc s c) = filter is_bar c"
  by (simp add: makeAxis_def)

lemma rects_of_append: "rects_of (c @ c') = rects_of c @ rects_of c'"
  by (induction c rule: rects_of.induct) simp_all

lemma rects_of_makeAxis: "rects_of (makeAxis ax sc s c) = rects_of c"
  by (simp add: makeAxis_def rects_of_append)

lemma no_rects_no_bars: "rects_of c = [] \<Longrightarrow> filter is_bar c = []"
  by (induction c rule: rects_of.induct) simp_all

lemma bind_data_no_bars: "filter is_bar c = [] \<Longrightarrow> bind_data ds c = c"
  by (induction ds c rule: bind_data.induct) (auto split: if_splits)

lemma length_bars_bind_data:
  "length (filter is_bar (bind_data ds c)) = length (filter is_bar c)"
  by (induction ds c rule: bind_data.induct) auto

lemma attrs_bind_data:
  "map attrs (rects_of (bind_data ds c)) = map attrs (rects_of c)"
  by (induction ds c rule: bind_data.induct) auto

lemma trans_bind_data:
  "map trans (rects_of (bind_data ds c)) = map trans (rects_of c)"
  by (induction ds c rule: bind_data.induct) auto

lemma is_bar_new_bar: "is_bar (new_bar s xs ys d)"
  by (simp add: new_bar_def)

lemma filter_is_bar_new_bars:
  "filter is_bar (map (new_bar s xs ys) ds) = map (new_bar s xs ys) ds"
  by (induction ds) (simp_all add: is_bar_new_bar)

lemma enter_no_bars: "filter is_bar c = [] \<Longrightarrow> enter ds c = ds"
  by (simp add: enter_def)

lemma enter_enough_bars: "length ds \<le> length (filter is_bar c) \<Longrightarrow> enter ds c = []"
  by (simp add: enter_def)


subsection \<open>The scales that draw builds\<close>

lemma yScale_draw:
  "yScale (draw ds s c)
     = \<lparr>lin_domain = (Some 0, to_number (d3_max (getData ds (yField s)))),
        lin_range = (chartHeight s, 0), lin_round = True\<rparr>"
  by (simp add: draw_def Let_def rangeRound_linear_def domain_linear_def d3_scaleLinear_def)


lemma scaleLinear_apply_NaN_domain:
  "snd (lin_domain sc) = None \<Longrightarrow> scaleLinear_apply sc v = None"
  by (simp add: scaleLinear_apply_def split: option.split)

lemma of_int_round_Ints: "x \<in> \<int> \<Longrightarrow> of_int (round x) = (x::rat)"
  by (auto elim: Ints_cases)

lemma scaleLinear_apply_zero:
  assumes "m \<noteq> 0"
  shows "scaleLinear_apply \<lparr>lin_domain = (Some 0, Some m), lin_range = (h, 0), lin_round = True\<rparr> (Num 0)
           = Some (of_int (round h))"
  using assms
  by (simp add: scaleLinear_apply_def reinterpolate_def deinterpolateLinear_def Let_def)

lemma scaleLinear_apply_max:
  assumes "m \<noteq> 0"
  shows "scaleLinear_apply \<lparr>lin_domain = (Some 0, Some m), lin_range = (h, 0), lin_round = True\<rparr> (Num m)
           = Some 0"
  using assms
  by (simp add: scaleLinear_apply_def reinterpolate_def deinterpolateLinear_def Let_def)





subsection \<open>The bars that draw creates\<close>

lemma ngOnInit_present:
  "ngOnInit mk (s\<lparr>data := Some ds\<rparr>)
     = (draw ds (s\<lparr>data := Some ds,
                   chartWidth := width s - left_m (margins s) - right_m (margins s),
                   chartHeight := height s - top_m (margins s) - bottom_m (margins s),
                   chart := Some (mk (width s) (height s) (margins s))\<rparr>)
            (mk (width s) (height s) (margins s)), None)"
  by (simp add: ngOnInit_def Let_def)

lemma length_bind_data: "length (bind_data ds c) = length c"
  by (induction ds c rule: bind_data.induct) auto

lemma length_makeAxis:
  "length (makeAxis ''y'' sc' s (makeAxis ''x'' sc s c)) = length c + 4"
  by (simp add: makeAxis_def)

lemma chart_draw:
  "chart (draw ds s c)
     = Some (bind_data ds (makeAxis ''y'' (Linear (yScale (draw ds s c))) (draw ds s c)
                            (makeAxis ''x'' (Band (xScale (draw ds s c))) (draw ds s c) c))
             @ map (new_bar (draw ds s c) (xScale (draw ds s c)) (yScale (draw ds s c)))
                 (enter ds c))"
  by (simp add: draw_def Let_def makeAxis_def new_bar_def enter_def)

lemma nodes_after_draw:
  "\<exists>c'. chart (draw ds s c) = Some c'
        \<and> length c' = length c + 4 + length (enter ds c)
        \<and> length (filter is_bar c') = max (length (filter is_bar c)) (length ds)"
proof -
  let ?s' = "draw ds s c"
  let ?c2 = "makeAxis ''y'' (Linear (yScale ?s')) ?s' (makeAxis ''x'' (Band (xScale ?s')) ?s' c)"
  let ?c' = "bind_data ds ?c2 @ map (new_bar ?s' (xScale ?s') (yScale ?s')) (enter ds c)"
  have "length ?c' = length c + 4 + length (enter ds c)"
    by (simp add: length_bind_data length_makeAxis)
  moreover have "length (filter is_bar ?c') = max (length (filter is_bar c)) (length ds)"
    by (simp add: length_bars_bind_data filter_is_bar_new_bars filter_is_bar_makeAxis enter_def)
  ultimately show ?thesis
    using chart_draw [of ds s c] by simp
qed


lemma chart_draw_lib:
  "chart (draw_lib svc ds s c)
     = Some (bind_data ds (makeAxis ''y'' (Linear (yScale (draw_lib svc ds s c))) (draw_lib svc ds s c)
                            (makeAxis ''x'' (Band (xScale (draw_lib svc ds s c))) (draw_lib svc ds s c) c))
             @ map (new_bar (draw_lib svc ds s c) (xScale (draw_lib svc ds s c)) (yScale (draw_lib svc ds s c)))
                 (enter ds c))"
  by (simp add: draw_lib_def Let_def makeAxis_def new_bar_def enter_def)


text \<open>
  When the chart already holds as many bars as there are records, \<open>draw\<close> creates no bar
  and leaves the attributes and the transitions of the bars as they are.
\<close>

lemma rerender_creates_no_bar:
  assumes "length ds \<le> length (filter is_bar c)"
  shows "\<exists>c'. chart (draw_lib svc ds s c) = Some c'
           \<and> map attrs (rects_of c') = map attrs (rects_of c)
           \<and> map trans (rects_of c') = map trans (rects_of c)"
proof -
  have "enter ds c = []" using assms by (rule enter_enough_bars)
  then show ?thesis
    using chart_draw_lib [of svc ds s c]
    by (simp add: attrs_bind_data trans_bind_data rects_of_makeAxis)
qed

lemma chartHeight_draw: "chartHeight (draw ds s c) = chartHeight s"
  by (simp add: draw_def Let_def)

section \<open>The claims\<close>

text \<open>
  C1, as amended. On the initial render (\<open>ngOnInit\<close>, in each of the three variants) a
  dataset that is null or absent makes the hook throw the error \<open>Missing Data!\<close> at once:
  the component is left exactly as it was, so no plotting-area geometry has been
  computed and nothing has been drawn.
\<close>

theorem ngOnInit_missing_data:
  "ngOnInit_lib svc (s\<lparr>data := None\<rparr>) = (s\<lparr>data := None\<rparr>, Some (Error ''Missing Data!''))
   \<and> ngOnInit mk (a\<lparr>data := None\<rparr>) = (a\<lparr>data := None\<rparr>, Some (Error ''Missing Data!''))
   \<and> ngOnInit_p0 mk (a\<lparr>data := None\<rparr>) = (a\<lparr>data := None\<rparr>, Some (Error ''Missing Data!''))"
  by (simp add: ngOnInit_lib_def ngOnInit_def ngOnInit_p0_def)

text \<open>
  C1 as stated speaks of every render invocation. The change notification is one, and
  with a null dataset it throws nothing and computes the plotting area: in the scenario,
  \<open>chartWidth\<close> goes from 0 to 280.
\<close>

theorem ngOnChanges_null_data_no_error:
  "snd (ngOnChanges_lib demo_svc (demo_lib\<lparr>data := None\<rparr>)) \<noteq> Some (Error ''Missing Data!'')
   \<and> chartWidth (demo_lib\<lparr>data := None\<rparr>) = 0
   \<and> chartWidth (fst (ngOnChanges_lib demo_svc (demo_lib\<lparr>data := None\<rparr>))) = 280"
  by (simp add: ngOnChanges_lib_def demo_lib_def)

text \<open>
  C2, as amended. When the dataset is present and no Y value is a number (the dataset
  is empty, or every record lacks the Y field), the initial render of the application's
  component raises no error. It builds the linear scale with the domain \<open>[0, NaN]\<close> and
  the range \<open>[chartHeight, 0]\<close>, a scale that maps every value to \<open>NaN\<close>, and it draws
  with it: the chart gets the four children of the two axes and a bar for every record
  that has none yet.
\<close>

theorem no_maximum_no_error:
  assumes "set (getData ds (yField s)) \<subseteq> {Undefined}"
  shows "snd (ngOnInit mk (s\<lparr>data := Some ds\<rparr>)) = None
         \<and> lin_domain (yScale (fst (ngOnInit mk (s\<lparr>data := Some ds\<rparr>)))) = (Some 0, None)
         \<and> lin_range (yScale (fst (ngOnInit mk (s\<lparr>data := Some ds\<rparr>))))
             = (chartHeight (fst (ngOnInit mk (s\<lparr>data := Some ds\<rparr>))), 0)
         \<and> scaleLinear_apply (yScale (fst (ngOnInit mk (s\<lparr>data := Some ds\<rparr>)))) v = None
         \<and> (\<exists>c'. chart (fst (ngOnInit mk (s\<lparr>data := Some ds\<rparr>))) = Some c'
                \<and> length c' = length (mk (width s) (height s) (margins s)) + 4
                                + length (enter ds (mk (width s) (height s) (margins s)))
                \<and> length ds \<le> length (filter is_bar c'))"
proof -
  let ?c = "mk (width s) (height s) (margins s)"
  let ?s3 = "s\<lparr>data := Some ds,
                chartWidth := width s - left_m (margins s) - right_m (margins s),
                chartHeight := height s - top_m (margins s) - bottom_m (margins s),
                chart := Some ?c\<rparr>"
  have r: "ngOnInit mk (s\<lparr>data := Some ds\<rparr>) = (draw ds ?s3 ?c, None)"
    by (rule ngOnInit_present)
  have "\<forall>r. Num r \<notin> set (getData ds (yField s))"
    using assms by auto
  then have "d3_max (getData ds (yField s)) = Undefined"
    by (rule d3_max_no_number)
  then have ys: "yScale (draw ds ?s3 ?c)
      = \<lparr>lin_domain = (Some 0, None), lin_range = (chartHeight ?s3, 0), lin_round = True\<rparr>"
    by (simp add: yScale_draw)
  obtain c' where c': "chart (draw ds ?s3 ?c) = Some c'"
      "length c' = length ?c + 4 + length (enter ds ?c)"
      "length (filter is_bar c') = max (length (filter is_bar ?c)) (length ds)"
    using nodes_after_draw [of ds ?s3 ?c] by blast
  from c'(3) have "length ds \<le> length (filter is_bar c')" by simp
  with r ys c'(1,2) show ?thesis
    by (simp add: chartHeight_draw scaleLinear_apply_NaN_domain)
qed

text \<open>
  The scenario with a Y field that no record has: no error, and seven children on the
  canvas, three of them bars.
\<close>

theorem no_maximum_no_error_witness:
  "set (getData demo_data (yField (demo\<lparr>yField := ''value''\<rparr>))) \<subseteq> {Undefined}
   \<and> snd (ngOnInit empty_canvas (demo\<lparr>yField := ''value'', data := Some demo_data\<rparr>)) = None
   \<and> lin_domain (yScale (fst (ngOnInit empty_canvas
                                 (demo\<lparr>yField := ''value'', data := Some demo_data\<rparr>))))
       = (Some 0, None)
   \<and> scaleLinear_apply (yScale (fst (ngOnInit empty_canvas
                                        (demo\<lparr>yField := ''value'', data := Some demo_data\<rparr>))))
        (Num 10) = None
   \<and> map_option length
        (chart (fst (ngOnInit empty_canvas (demo\<lparr>yField := ''value'', data := Some demo_data\<rparr>))))
       = Some 7
   \<and> map_option (length \<circ> filter is_bar)
        (chart (fst (ngOnInit empty_canvas (demo\<lparr>yField := ''value'', data := Some demo_data\<rparr>))))
       = Some 3"
proof -
  have h: "set (getData demo_data (yField (demo\<lparr>yField := ''value''\<rparr>))) \<subseteq> {Undefined}"
    by code_simp
  have e: "map_option length
        (chart (fst (ngOnInit empty_canvas (demo\<lparr>yField := ''value'', data := Some demo_data\<rparr>))))
       = Some 7
   \<and> map_option (length \<circ> filter is_bar)
        (chart (fst (ngOnInit empty_canvas (demo\<lparr>yField := ''value'', data := Some demo_data\<rparr>))))
       = Some 3"
    by code_simp
  have "snd (ngOnInit empty_canvas (demo\<lparr>yField := ''value'', data := Some demo_data\<rparr>)) = None
   \<and> lin_domain (yScale (fst (ngOnInit empty_canvas
                                 (demo\<lparr>yField := ''value'', data := Some demo_data\<rparr>))))
       = (Some 0, None)
   \<and> scaleLinear_apply (yScale (fst (ngOnInit empty_canvas
                                        (demo\<lparr>yField := ''value'', data := Some demo_data\<rparr>))))
        (Num 10) = None"
    using no_maximum_no_error [OF h, of empty_canvas "Num 10"] by blast
  with h e show ?thesis by blast
qed

text \<open>
  C2 as stated asks for a \<open>DataError\<close>. On the empty dataset the render ends without
  an error and with a linear scale whose domain is bounded by \<open>NaN\<close>.
\<close>

theorem empty_dataset_no_error: "snd (ngOnInit empty_canvas (demo\<lparr>data := Some []\<rparr>)) = None
  \<and> lin_domain (yScale (fst (ngOnInit empty_canvas (demo\<lparr>data := Some []\<rparr>)))) = (Some 0, None)"
  by code_simp

text \<open>
  C3, as amended. When the Y values are numbers, or \<open>undefined\<close> where a record lacks
  the field, and one at least is a number, the linear scale that \<open>draw\<close> builds has the
  domain \<open>[0, max(Y)]\<close>, whatever the least Y value is, and the range \<open>[chartHeight, 0]\<close>.
  When \<open>max(Y)\<close> is not zero the scale maps \<open>max(Y)\<close> to 0 and maps 0 to \<open>chartHeight\<close>
  rounded to the nearest integer (the range is set with \<open>rangeRound\<close>), which is
  \<open>chartHeight\<close> when \<open>chartHeight\<close> is an integer.
\<close>

theorem linear_scale_of_draw:
  assumes "numeric_series (getData ds (yField s))"
    and "Num r \<in> set (getData ds (yField s))"
  shows "lin_domain (yScale (draw ds s c))
           = (Some 0, Some (Max {q. Num q \<in> set (getData ds (yField s))}))
         \<and> lin_range (yScale (draw ds s c)) = (chartHeight s, 0)
         \<and> (Max {q. Num q \<in> set (getData ds (yField s))} \<noteq> 0 \<longrightarrow>
              scaleLinear_apply (yScale (draw ds s c)) (Num 0) = Some (of_int (round (chartHeight s)))
              \<and> scaleLinear_apply (yScale (draw ds s c))
                  (Num (Max {q. Num q \<in> set (getData ds (yField s))})) = Some 0)
         \<and> (Max {q. Num q \<in> set (getData ds (yField s))} \<noteq> 0 \<and> chartHeight s \<in> \<int> \<longrightarrow>
              scaleLinear_apply (yScale (draw ds s c)) (Num 0) = Some (chartHeight s))"
proof -
  let ?m = "Max {q. Num q \<in> set (getData ds (yField s))}"
  have "d3_max (getData ds (yField s)) = Num ?m"
    using assms(2) by (rule d3_max_number)
  then have ys: "yScale (draw ds s c)
      = \<lparr>lin_domain = (Some 0, Some ?m), lin_range = (chartHeight s, 0), lin_round = True\<rparr>"
    by (simp add: yScale_draw)
  show ?thesis
    unfolding ys
    by (simp add: scaleLinear_apply_zero scaleLinear_apply_max of_int_round_Ints)
qed

text \<open>
  The test of the specification: the Y values \<open>[-5, 10, 3]\<close> give the domain \<open>[0, 10]\<close>.
\<close>

theorem linear_scale_of_draw_witness:
  "numeric_series (getData neg_data (yField (demo\<lparr>chartHeight := 280\<rparr>)))
   \<and> Num 10 \<in> set (getData neg_data (yField (demo\<lparr>chartHeight := 280\<rparr>)))
   \<and> lin_domain (yScale (draw neg_data (demo\<lparr>chartHeight := 280\<rparr>) [])) = (Some 0, Some 10)
   \<and> Max {q. Num q \<in> set (getData neg_data (yField (demo\<lparr>chartHeight := 280\<rparr>)))} = 10
   \<and> lin_range (yScale (draw neg_data (demo\<lparr>chartHeight := 280\<rparr>) [])) = (280, 0)
   \<and> scaleLinear_apply (yScale (draw neg_data (demo\<lparr>chartHeight := 280\<rparr>) [])) (Num 0) = Some 280
   \<and> scaleLinear_apply (yScale (draw neg_data (demo\<lparr>chartHeight := 280\<rparr>) [])) (Num 10) = Some 0"
proof -
  have n: "numeric_series (getData neg_data (yField (demo\<lparr>chartHeight := 280\<rparr>)))"
    by code_simp
  have h: "Num 10 \<in> set (getData neg_data (yField (demo\<lparr>chartHeight := 280\<rparr>)))"
    by code_simp
  have e: "lin_domain (yScale (draw neg_data (demo\<lparr>chartHeight := 280\<rparr>) [])) = (Some 0, Some 10)
     \<and> lin_range (yScale (draw neg_data (demo\<lparr>chartHeight := 280\<rparr>) [])) = (280, 0)
     \<and> scaleLinear_apply (yScale (draw neg_data (demo\<lparr>chartHeight := 280\<rparr>) [])) (Num 0) = Some 280
     \<and> scaleLinear_apply (yScale (draw neg_data (demo\<lparr>chartHeight := 280\<rparr>) [])) (Num 10) = Some 0"
    by code_simp
  have "lin_domain (yScale (draw neg_data (demo\<lparr>chartHeight := 280\<rparr>) []))
          = (Some 0, Some (Max {q. Num q \<in> set (getData neg_data (yField (demo\<lparr>chartHeight := 280\<rparr>)))}))"
    using linear_scale_of_draw [OF n h, of "[]"] by blast
  with n h e show ?thesis by simp
qed

text \<open>
  C3 as stated holds for every non-empty dataset. With the single Y value 0 the maximum
  is 0 and \<open>chartHeight\<close> is 280: no scale maps 0 both to \<open>chartHeight\<close> and to 0.
\<close>

theorem zero_maximum_scale: "d3_max (yData (fst (ngOnInit empty_canvas (demo\<lparr>data := Some zero_data\<rparr>)))) = Num 0
  \<and> chartHeight (fst (ngOnInit empty_canvas (demo\<lparr>data := Some zero_data\<rparr>))) = 280
  \<and> \<not> (scaleLinear_apply (yScale (fst (ngOnInit empty_canvas (demo\<lparr>data := Some zero_data\<rparr>)))) (Num 0)
          = Some (chartHeight (fst (ngOnInit empty_canvas (demo\<lparr>data := Some zero_data\<rparr>))))
       \<and> scaleLinear_apply (yScale (fst (ngOnInit empty_canvas (demo\<lparr>data := Some zero_data\<rparr>))))
            (d3_max (yData (fst (ngOnInit empty_canvas (demo\<lparr>data := Some zero_data\<rparr>))))) = Some 0)"
  by code_simp




text \<open>
  C5 fails on the code. The application's component is rendered for the first time with
  a height of 400.5, so that the plotting area is 280.5 high. \<open>draw\<close> sets \<open>y\<close> to
  \<open>linearScale(0)\<close> and the height to \<open>chartHeight - linearScale(0)\<close>, on a scale whose range
  is set with \<open>rangeRound\<close>: \<open>linearScale(0)\<close> is 281, and the three bars start at
  \<open>y = 281\<close> with the height \<open>-0.5\<close>, not at \<open>y = chartHeight\<close> with the height 0. The
  earlier variant sets \<open>chartHeight\<close> and 0 themselves, and its bars start there. With the
  height of 400 of the scenario the bars of the application's component start there too.
\<close>

theorem bar_baseline_rounded:
  "chartHeight (fst (ngOnInit empty_canvas (demo\<lparr>height := 801 / 2\<rparr>))) = 561 / 2
   \<and> scaleLinear_apply (yScale (fst (ngOnInit empty_canvas (demo\<lparr>height := 801 / 2\<rparr>)))) (Num 0)
       = Some 281
   \<and> map_option (map (\<lambda>r. baseline r (Some 281) (Some (- 1 / 2))) \<circ> rects_of)
        (chart (fst (ngOnInit empty_canvas (demo\<lparr>height := 801 / 2\<rparr>))))
       = Some [True, True, True]
   \<and> map_option (map (\<lambda>r. baseline r
                              (Some (chartHeight (fst (ngOnInit empty_canvas (demo\<lparr>height := 801 / 2\<rparr>)))))
                              (Some 0)) \<circ> rects_of)
        (chart (fst (ngOnInit empty_canvas (demo\<lparr>height := 801 / 2\<rparr>))))
       = Some [False, False, False]
   \<and> chartHeight (fst (ngOnInit_p0 empty_canvas (demo\<lparr>height := 801 / 2\<rparr>))) = 561 / 2
   \<and> map_option (map (\<lambda>r. baseline r (Some (561 / 2)) (Some 0)) \<circ> rects_of)
        (chart (fst (ngOnInit_p0 empty_canvas (demo\<lparr>height := 801 / 2\<rparr>))))
       = Some [True, True, True]
   \<and> chartHeight demo_app_rendered = 280
   \<and> map_option (map (\<lambda>r. baseline r (Some 280) (Some 0)) \<circ> rects_of)
        (chart demo_app_rendered)
       = Some [True, True, True]"
  by code_simp

text \<open>
  C6 fails on the code. The application's component renders the scenario and is then
  notified of the re-render of the specification (\<open>A\<close> changed from 10 to 30). The three
  bars are bound to the new records, and the new scale maps 30 to 0; but no bar gets a
  transition to the position of its record: the transitions are those of the first draw,
  the bar of \<open>A\<close> heading for \<open>y = 140\<close> and the height 140, not for \<open>y = 0\<close> and the
  height 280. After the initial render, of this component and of its earlier variant,
  every bar has the transition to the position of its record.
\<close>

theorem rerender_stale_transitions:
  "map_option (map (\<lambda>r. getProp (datum r) ''val'') \<circ> rects_of)
      (chart (fst (ngOnChanges (demo_app_rendered\<lparr>data := Some rerender_data\<rparr>))))
     = Some [Num 30, Num 20, Num 5]
   \<and> chartHeight (fst (ngOnChanges (demo_app_rendered\<lparr>data := Some rerender_data\<rparr>))) = 280
   \<and> scaleLinear_apply
        (yScale (fst (ngOnChanges (demo_app_rendered\<lparr>data := Some rerender_data\<rparr>)))) (Num 30)
     = Some 0
   \<and> map_option (map (\<lambda>r. transition_to r 880 (Some 0) (Some 280)) \<circ> rects_of)
        (chart (fst (ngOnChanges (demo_app_rendered\<lparr>data := Some rerender_data\<rparr>))))
     = Some [False, True, False]
   \<and> map_option (map (\<lambda>r. transition_to r 880 (Some 140) (Some 140)) \<circ> rects_of)
        (chart (fst (ngOnChanges (demo_app_rendered\<lparr>data := Some rerender_data\<rparr>))))
     = Some [True, False, False]
   \<and> map_option
        (map (\<lambda>r. transition_to r 880
                     (scaleLinear_apply
                        (yScale (fst (ngOnChanges (demo_app_rendered\<lparr>data := Some rerender_data\<rparr>))))
                        (getProp (datum r) ''val''))
                     (minus_js
                        (chartHeight (fst (ngOnChanges (demo_app_rendered\<lparr>data := Some rerender_data\<rparr>))))
                        (scaleLinear_apply
                           (yScale (fst (ngOnChanges (demo_app_rendered\<lparr>data := Some rerender_data\<rparr>))))
                           (getProp (datum r) ''val'')))) \<circ> rects_of)
        (chart (fst (ngOnChanges (demo_app_rendered\<lparr>data := Some rerender_data\<rparr>))))
     = Some [False, False, False]
   \<and> map_option
        (map (\<lambda>r. transition_to r 880
                     (scaleLinear_apply (yScale demo_app_rendered) (getProp (datum r) ''val''))
                     (minus_js (chartHeight demo_app_rendered)
                        (scaleLinear_apply (yScale demo_app_rendered)
                           (getProp (datum r) ''val'')))) \<circ> rects_of)
        (chart demo_app_rendered)
     = Some [True, True, True]
   \<and> map_option
        (map (\<lambda>r. transition_to r 1200
                     (scaleLinear_apply (yScale (fst (ngOnInit_p0 empty_canvas demo)))
                        (getProp (datum r) ''val''))
                     (minus_js (chartHeight (fst (ngOnInit_p0 empty_canvas demo)))
                        (scaleLinear_apply (yScale (fst (ngOnInit_p0 empty_canvas demo)))
                           (getProp (datum r) ''val'')))) \<circ> rects_of)
        (chart (fst (ngOnInit_p0 empty_canvas demo)))
     = Some [True, True, True]"
  by code_simp

text \<open>
  C7 fails on the code. The library's component renders the scenario and is then
  notified of a change of its data. With the re-render of the specification (\<open>A\<close> changed
  from 10 to 30) no bar is created: the three bars of the first draw stay, bound to the
  new records but with the attributes and the transitions of the first draw, the bar of
  \<open>A\<close> still heading for \<open>y = 140\<close> and the height 140; the chart has four more children,
  a second pair of axes with their labels. With one record instead of three the chart
  still holds three bars.
\<close>

theorem rerender_keeps_old_bars:
  "map_option (map (\<lambda>r. transition_to r 880 (Some 140) (Some 140)) \<circ> rects_of)
      (chart demo_rendered) = Some [True, False, False]
   \<and> map_option (map (\<lambda>r. getProp (datum r) ''val'') \<circ> rects_of)
      (chart (fst (ngOnChanges_lib demo_svc (demo_rendered\<lparr>data := Some rerender_data\<rparr>))))
       = Some [Num 30, Num 20, Num 5]
   \<and> map_option (map (\<lambda>r. transition_to r 880 (Some 140) (Some 140)) \<circ> rects_of)
      (chart (fst (ngOnChanges_lib demo_svc (demo_rendered\<lparr>data := Some rerender_data\<rparr>))))
       = Some [True, False, False]
   \<and> map_option (map (\<lambda>r. transition_to r 880 (Some 0) (Some 280)) \<circ> rects_of)
      (chart (fst (ngOnChanges_lib demo_svc (demo_rendered\<lparr>data := Some rerender_data\<rparr>))))
       = Some [False, True, False]
   \<and> map_option (map attrs \<circ> rects_of)
      (chart (fst (ngOnChanges_lib demo_svc (demo_rendered\<lparr>data := Some rerender_data\<rparr>))))
       = map_option (map attrs \<circ> rects_of) (chart demo_rendered)
   \<and> map_option (map trans \<circ> rects_of)
      (chart (fst (ngOnChanges_lib demo_svc (demo_rendered\<lparr>data := Some rerender_data\<rparr>))))
       = map_option (map trans \<circ> rects_of) (chart demo_rendered)
   \<and> length shrunk_data = 1
   \<and> map_option (length \<circ> filter is_bar)
      (chart (fst (ngOnChanges_lib demo_svc (demo_rendered\<lparr>data := Some shrunk_data\<rparr>))))
       = Some 3
   \<and> map_option length (chart demo_rendered) = Some 7
   \<and> map_option length
      (chart (fst (ngOnChanges_lib demo_svc (demo_rendered\<lparr>data := Some rerender_data\<rparr>))))
       = Some 11"
  by code_simp




text \<open>
  C10. On the change notification a null dataset raises no error: the hook returns with
  \<open>chartWidth\<close> and \<open>chartHeight\<close> recomputed from the configuration and with the chart as
  it was, nothing drawn (library and application; the earlier variant never draws there).
  The hook raises no error on any input, while \<open>ngOnInit\<close> raises \<open>Missing Data!\<close> on
  the null dataset: the check is on the initial render path only.
\<close>

theorem ngOnChanges_skips_null_data:
  "ngOnChanges_lib svc (s\<lparr>data := None\<rparr>)
     = (s\<lparr>data := None,
          chartWidth := width s - left_m (margins s) - right_m (margins s),
          chartHeight := height s - top_m (margins s) - bottom_m (margins s),
          tooltipLabels := (xField s, yField s)\<rparr>, None)
   \<and> ngOnChanges (a\<lparr>data := None\<rparr>)
     = (a\<lparr>data := None,
          chartWidth := width a - left_m (margins a) - right_m (margins a),
          chartHeight := height a - top_m (margins a) - bottom_m (margins a)\<rparr>, None)
   \<and> ngOnChanges_p0 a
     = (a\<lparr>chartWidth := width a - left_m (margins a) - right_m (margins a),
          chartHeight := height a - top_m (margins a) - bottom_m (margins a)\<rparr>, None)
   \<and> snd (ngOnChanges_lib svc t) = None
   \<and> snd (ngOnChanges b) = None
   \<and> snd (ngOnInit_lib svc (s\<lparr>data := None\<rparr>)) = Some (Error ''Missing Data!'')"
  by (simp add: ngOnChanges_lib_def ngOnChanges_def ngOnChanges_p0_def ngOnInit_lib_def
      Let_def split: option.split)

end
